theory Spec2Isabelle
  imports Main
begin

section \<open>NHS number checksum (frontend script: validateNHSNumber, generateValidNHSNumber)\<close>

text \<open>
  JavaScript numbers are modelled as \<open>int\<close>: every quantity below is a small whole
  number. Strings are \<open>char list\<close>; the claims only concern strings of ASCII digits.
\<close>

definition is_digit :: "char \<Rightarrow> bool" where
  \<comment> \<open>the regular expression class \<open>\d\<close>: the ASCII digits 0 to 9\<close>
  "is_digit c = (let n = (of_char c :: int) in 48 \<le> n \<and> n \<le> 57)"

definition matches_ten_digits :: "string \<Rightarrow> bool" where
  \<comment> \<open>\<open>/^\d{10}$/.test(nhsNumber)\<close>\<close>
  "matches_ten_digits s = (length s = 10 \<and> list_all is_digit s)"

definition Number_char :: "char \<Rightarrow> int" where
  \<comment> \<open>\<open>Number(c)\<close> for a one-character string holding a digit\<close>
  "Number_char c = of_char c - 48"

definition weighted_sum :: "int list \<Rightarrow> int" where
  \<comment> \<open>\<open>let sum = 0; for (let i = 0; i < 9; i++) sum += digits[i] * (10 - i);\<close>\<close>
  "weighted_sum digits = fold (\<lambda>i sum. sum + digits ! i * (10 - int i)) [0..<9] 0"

definition validateNHSNumber :: "string \<Rightarrow> bool" where
  "validateNHSNumber nhsNumber =
     (if \<not> matches_ten_digits nhsNumber then False
      else
        let digits = map Number_char nhsNumber;
            sum = weighted_sum digits;
            checkDigit = 11 - (sum mod 11);
            expected = (if checkDigit = 11 then 0 else if checkDigit = 10 then 0 else checkDigit)
        in expected = digits ! 9)"

function String_num :: "int \<Rightarrow> string" where
  \<comment> \<open>\<open>String(n)\<close> for a whole number: its decimal digits, with a minus sign when negative\<close>
  "String_num n =
     (if n < 0 then CHR ''-'' # String_num (- n)
      else if n < 10 then [char_of (48 + n)]
      else String_num (n div 10) @ [char_of (48 + n mod 10)])"
  by pat_completeness auto
termination
  by (relation "measure (\<lambda>n. if n < 0 then nat (- n) + 1 else nat n)") auto




subsection \<open>The algorithm as the specification words it\<close>

definition spec_check_digit :: "string \<Rightarrow> int" where
  \<comment> \<open>weighted sum over the first nine digits, remainder modulo 11, 11 minus the remainder\<close>
  "spec_check_digit s =
     11 - ((\<Sum>i\<leftarrow>[0..<9]. Number_char (s ! i) * (10 - int i)) mod 11)"

definition spec_valid :: "string \<Rightarrow> bool" where
  \<comment> \<open>exactly ten ASCII digits; a check digit of 11 counts as 0; a check digit of 10 is invalid\<close>
  "spec_valid s =
     (length s = 10 \<and> list_all is_digit s \<and>
      (let c = spec_check_digit s
       in if c = 10 then False
          else (if c = 11 then 0 else c) = Number_char (s ! 9)))"


section \<open>GP Connect service (GPConnectService)\<close>

subsection \<open>Data\<close>

datatype error =
    Error string \<comment> \<open>a JavaScript \<open>Error\<close> with its message (thrown here or by a library)\<close>
  | TypeError \<comment> \<open>a property read on \<open>undefined\<close> or \<open>null\<close>\<close>

record GPPractice =
  practice_id :: string
  ods_code :: string
  name :: string
  gp_connect_endpoint :: string
  asid :: string
  active :: bool

text \<open>
  A timestamp string is either the rendering \<open>new Date(ms).toISOString()\<close> of a time
  value in milliseconds since the epoch, kept as that value, or a string taken as it is
  (a literal of the source, or a field of the practice's response).
\<close>

datatype timestamp = ISOString int | Literal string

record practitioner =
  reference :: string
  display :: string

record AppointmentSlot =
  slot_id :: string
  slot_start :: timestamp
  slot_end :: timestamp
  slot_status :: string
  slot_practitioner :: practitioner

record contactPreferences =
  phone :: "string option"
  email :: "string option"
  sms :: "bool option"

record BookingRequest =
  patientNHSNumber :: string
  gpPracticeODSCode :: string
  appointmentType :: string
  reasonForAppointment :: string
  urgency :: string
  duration :: int \<comment> \<open>minutes; the request schema admits 10 to 60, here whole minutes\<close>
  bookedBy :: string
  contact :: contactPreferences

record coding =
  coding_system :: string
  coding_code :: string
  coding_display :: string

record participant =
  actor_identifier_system :: string
  actor_identifier_value :: string
  participant_status :: string

record Appointment =
  resourceType :: string
  appointment_id :: "string option" \<comment> \<open>only the mock booking response sets \<open>id\<close>\<close>
  appointment_status :: string
  serviceType :: "coding list list option"
  reasonCode :: "string list option"
  appointment_start :: timestamp
  appointment_end :: timestamp
  minutesDuration :: int
  participants :: "participant list"

record notification =
  method_name :: string
  success :: bool
  messageId :: "string option"

record BookingResult =
  appointment :: Appointment
  notifications :: "notification list"

record process_env =
  NODE_ENV :: "string option"
  DB_PASSWORD :: "string option"
  GP_CONNECT_JWT_KEY :: "string option"
  NHS_ASID :: "string option"
  NHS_ORGANIZATION_CODE :: "string option"
  NHS_USER_ID :: "string option"

record jwt_payload =
  jwt_iss :: "string option"
  jwt_sub :: "string option"
  jwt_aud :: string
  jwt_exp :: int
  jwt_iat :: int
  reason_for_request :: string
  requested_scope :: string
  requesting_device :: string
  requesting_organization :: "string option"
  requesting_practitioner :: "string option"

datatype http_payload =
    SlotQuery string string string "string list"
      \<comment> \<open>query parameters \<open>start\<close>, \<open>end\<close>, \<open>status\<close>, \<open>_include\<close>\<close>
  | AppointmentBody Appointment

record http_request =
  http_method :: string
  url :: string
  authorization :: string
  ssp_trace_id :: string
  ssp_from :: "string option"
  ssp_to :: string
  ssp_interaction_id :: string
  payload :: http_payload

record fhir_resource =
  fhir_resourceType :: string
  fhir_id :: string
  fhir_start :: timestamp
  fhir_end :: timestamp
  fhir_status :: string
  schedule_reference :: "string option" \<comment> \<open>\<open>resource.schedule?.reference\<close>\<close>

record fhir_entry =
  resource :: "fhir_resource option"

record fhir_bundle =
  entry :: "fhir_entry list option"

record appointment_row =
  row_appointment_id :: string
  patient_nhs_number :: string
  practice_ods_code :: string
  appointment_type :: string
  row_appointment_start :: int
  row_appointment_end :: int
  reason_for_appointment :: string
  row_urgency :: string
  duration_minutes :: int
  booked_by :: string
  row_status :: string

text \<open>
  What the service reaches outside itself: the clock, the UUID generator, the database,
  the HTTP client and the signing library. \<open>Date_now k\<close> is the value of the \<open>k\<close>-th
  reading of the clock (milliseconds since the epoch) and \<open>uuidv4 k\<close> the \<open>k\<close>-th
  identifier drawn. The database table is either its rows or the error its query raises.
\<close>

record collaborators =
  Date_now :: "nat \<Rightarrow> int"
  uuidv4 :: "nat \<Rightarrow> string"
  gp_practices :: "error + GPPractice list"
  appointments_insert :: "appointment_row \<Rightarrow> error option"
  http_get :: "http_request \<Rightarrow> error + fhir_bundle option"
  http_post :: "http_request \<Rightarrow> error option"
  jwt_sign :: "jwt_payload \<Rightarrow> string \<Rightarrow> error + string"

text \<open>The effects a call leaves behind, threaded through every operation.\<close>

record world =
  clock_reads :: nat
  uuids_drawn :: nat
  http_log :: "http_request list"
  inserted :: "appointment_row list"

record GPConnectService =
  jwtPrivateKey :: string

subsection \<open>Helpers of the embedding\<close>

definition truthy :: "string option \<Rightarrow> bool" where
  \<comment> \<open>JavaScript truthiness of an environment variable: set and not the empty string\<close>
  "truthy v = (case v of None \<Rightarrow> False | Some s \<Rightarrow> s \<noteq> [])"

definition new_GPConnectService :: "process_env \<Rightarrow> GPConnectService" where
  \<comment> \<open>the constructor: \<open>this.jwtPrivateKey = process.env.GP_CONNECT_JWT_KEY || ''\<close>\<close>
  "new_GPConnectService env =
     \<lparr>jwtPrivateKey = (case GP_CONNECT_JWT_KEY env of None \<Rightarrow> [] | Some s \<Rightarrow> s)\<rparr>"

definition read_clock :: "collaborators \<Rightarrow> world \<Rightarrow> int \<times> world" where
  \<comment> \<open>\<open>Date.now()\<close>, and the time value of \<open>new Date()\<close>\<close>
  "read_clock x w = (Date_now x (clock_reads w), w\<lparr>clock_reads := Suc (clock_reads w)\<rparr>)"

definition draw_uuid :: "collaborators \<Rightarrow> world \<Rightarrow> string \<times> world" where
  "draw_uuid x w = (uuidv4 x (uuids_drawn w), w\<lparr>uuids_drawn := Suc (uuids_drawn w)\<rparr>)"

definition demo_mode :: "process_env \<Rightarrow> bool" where
  \<comment> \<open>\<open>process.env.NODE_ENV === 'demo' || !process.env.DB_PASSWORD\<close>\<close>
  "demo_mode env = (NODE_ENV env = Some ''demo'' \<or> \<not> truthy (DB_PASSWORD env))"

definition no_signing_mode :: "process_env \<Rightarrow> bool" where
  \<comment> \<open>\<open>process.env.NODE_ENV === 'demo' || !process.env.GP_CONNECT_JWT_KEY\<close>\<close>
  "no_signing_mode env = (NODE_ENV env = Some ''demo'' \<or> \<not> truthy (GP_CONNECT_JWT_KEY env))"

subsection \<open>generateJWT\<close>

definition build_jwt_payload :: "process_env \<Rightarrow> string \<Rightarrow> string \<Rightarrow> int \<Rightarrow> int \<Rightarrow> jwt_payload" where
  \<comment> \<open>the object literal \<open>payload\<close>; \<open>now_exp\<close> and \<open>now_iat\<close> are the values of the two
      evaluations of \<open>Date.now()\<close>, in the order of the literal's properties\<close>
  "build_jwt_payload env asid' endpoint now_exp now_iat =
     \<lparr>jwt_iss = NHS_ASID env,
      jwt_sub = NHS_ASID env,
      jwt_aud = endpoint,
      jwt_exp = now_exp div 1000 + (5 * 60),
      jwt_iat = now_iat div 1000,
      reason_for_request = ''directcare'',
      requested_scope = ''patient/*.read'',
      requesting_device = asid',
      requesting_organization = NHS_ORGANIZATION_CODE env,
      requesting_practitioner = NHS_USER_ID env\<rparr>"

definition generateJWT ::
  "collaborators \<Rightarrow> GPConnectService \<Rightarrow> process_env \<Rightarrow> string \<Rightarrow> string \<Rightarrow> world
     \<Rightarrow> (error + string) \<times> world" where
  "generateJWT x svc env asid' endpoint w =
     (if NODE_ENV env = Some ''demo'' \<or> jwtPrivateKey svc = [] then
        (let (now, w1) = read_clock x w
         in (Inr (''demo-jwt-token-'' @ String_num now), w1))
      else
        (let (now_exp, w1) = read_clock x w;
             (now_iat, w2) = read_clock x w1
         in (jwt_sign x (build_jwt_payload env asid' endpoint now_exp now_iat) (jwtPrivateKey svc), w2)))"

subsection \<open>getPracticeByODS\<close>

definition example_medical_centre :: GPPractice where
  "example_medical_centre =
     \<lparr>practice_id = ''1'', ods_code = ''A12345'', name = ''Example Medical Centre'',
      gp_connect_endpoint = ''https://gp.example.nhs.uk/gpconnect'',
      asid = ''ABC123456789'', active = True\<rparr>"

definition mockPractices :: "GPPractice list" where
  "mockPractices =
     [\<lparr>practice_id = ''1'', ods_code = ''A12345'', name = ''Example Medical Centre'',
       gp_connect_endpoint = ''https://gp.example.nhs.uk/gpconnect'',
       asid = ''ABC123456789'', active = True\<rparr>,
      \<lparr>practice_id = ''2'', ods_code = ''B67890'', name = ''Community Health Practice'',
       gp_connect_endpoint = ''https://community.example.nhs.uk/fhir'',
       asid = ''DEF123456789'', active = True\<rparr>,
      \<lparr>practice_id = ''3'', ods_code = ''C11111'', name = ''Riverside Surgery'',
       gp_connect_endpoint = ''https://riverside.example.nhs.uk/fhir'',
       asid = ''GHI123456789'', active = True\<rparr>]"

definition getPracticeByODS :: "collaborators \<Rightarrow> process_env \<Rightarrow> string \<Rightarrow> GPPractice option" where
  \<comment> \<open>the \<open>try\<close> block's two branches, and the \<open>catch\<close> block for an error of the query\<close>
  "getPracticeByODS x env odsCode =
     (if demo_mode env then find (\<lambda>p. ods_code p = odsCode) mockPractices
      else
        (case gp_practices x of
           Inr rows \<Rightarrow> find (\<lambda>p. ods_code p = odsCode \<and> active p = True) rows
         | Inl err \<Rightarrow> if odsCode = ''A12345'' then Some example_medical_centre else None))"

subsection \<open>getMockSlots\<close>

definition getMockSlots :: "collaborators \<Rightarrow> world \<Rightarrow> AppointmentSlot list \<times> world" where
  \<comment> \<open>\<open>10.5\<close> and \<open>11.25\<close> hours are written as \<open>105 / 10\<close> and \<open>1125 / 100\<close> hours\<close>
  "getMockSlots x w =
     (let (today, w0) = read_clock x w;
          tomorrow = today + 24 * 60 * 60 * 1000;
          dayAfter = today + 2 * 24 * 60 * 60 * 1000;
          (u1, w1) = draw_uuid x w0;
          (u2, w2) = draw_uuid x w1;
          (u3, w3) = draw_uuid x w2;
          (u4, w4) = draw_uuid x w3
      in ([\<lparr>slot_id = ''slot-'' @ u1,
             slot_start = ISOString (tomorrow + 9 * 60 * 60 * 1000),
             slot_end = ISOString (tomorrow + 9 * 60 * 60 * 1000 + 15 * 60 * 1000),
             slot_status = ''free'',
             slot_practitioner =
               \<lparr>reference = ''Practitioner/dr-smith'', display = ''Dr. Sarah Smith''\<rparr>\<rparr>,
           \<lparr>slot_id = ''slot-'' @ u2,
             slot_start = ISOString (tomorrow + 105 * 60 * 60 * 1000 div 10),
             slot_end = ISOString (tomorrow + 105 * 60 * 60 * 1000 div 10 + 15 * 60 * 1000),
             slot_status = ''free'',
             slot_practitioner =
               \<lparr>reference = ''Practitioner/dr-wilson'', display = ''Dr. James Wilson''\<rparr>\<rparr>,
           \<lparr>slot_id = ''slot-'' @ u3,
             slot_start = ISOString (tomorrow + 14 * 60 * 60 * 1000),
             slot_end = ISOString (tomorrow + 14 * 60 * 60 * 1000 + 15 * 60 * 1000),
             slot_status = ''free'',
             slot_practitioner =
               \<lparr>reference = ''Practitioner/dr-johnson'', display = ''Dr. Emily Johnson''\<rparr>\<rparr>,
           \<lparr>slot_id = ''slot-'' @ u4,
             slot_start = ISOString (dayAfter + 1125 * 60 * 60 * 1000 div 100),
             slot_end = ISOString (dayAfter + 1125 * 60 * 60 * 1000 div 100 + 15 * 60 * 1000),
             slot_status = ''free'',
             slot_practitioner =
               \<lparr>reference = ''Practitioner/dr-brown'', display = ''Dr. Michael Brown''\<rparr>\<rparr>],
          w4))"

subsection \<open>searchAvailableSlots\<close>

definition slot_of_resource :: "fhir_resource \<Rightarrow> AppointmentSlot" where
  "slot_of_resource r =
     \<lparr>slot_id = fhir_id r, slot_start = fhir_start r, slot_end = fhir_end r,
      slot_status = fhir_status r,
      slot_practitioner =
        \<lparr>reference = (case schedule_reference r of
                         None \<Rightarrow> ''Unknown''
                       | Some s \<Rightarrow> if s = [] then ''Unknown'' else s),
         display = ''GP Practitioner''\<rparr>\<rparr>"

fun filter_slot_entries :: "fhir_entry list \<Rightarrow> error + fhir_resource list" where
  \<comment> \<open>\<open>.filter(entry => entry.resource.resourceType === 'Slot')\<close>; an entry without a
      resource raises\<close>
  "filter_slot_entries [] = Inr []"
| "filter_slot_entries (e # es) =
     (case resource e of
        None \<Rightarrow> Inl TypeError
      | Some r \<Rightarrow>
          (case filter_slot_entries es of
             Inl err \<Rightarrow> Inl err
           | Inr rs \<Rightarrow> Inr (if fhir_resourceType r = ''Slot'' then r # rs else rs)))"

definition transform_response :: "fhir_bundle option \<Rightarrow> error + AppointmentSlot list" where
  \<comment> \<open>\<open>response.data.entry?.filter(...).map(...) || []\<close>\<close>
  "transform_response data =
     (case data of
        None \<Rightarrow> Inl TypeError
      | Some bundle \<Rightarrow>
          (case entry bundle of
             None \<Rightarrow> Inr []
           | Some es \<Rightarrow>
               (case filter_slot_entries es of
                  Inl err \<Rightarrow> Inl err
                | Inr rs \<Rightarrow> Inr (map slot_of_resource rs))))"

definition slot_search_request ::
  "process_env \<Rightarrow> GPPractice \<Rightarrow> string \<Rightarrow> string \<Rightarrow> string \<Rightarrow> string \<Rightarrow> http_request" where
  "slot_search_request env practice jwtToken traceId fromDate toDate =
     \<lparr>http_method = ''GET'',
      url = gp_connect_endpoint practice @ ''/Slot'',
      authorization = ''Bearer '' @ jwtToken,
      ssp_trace_id = traceId,
      ssp_from = NHS_ASID env,
      ssp_to = asid practice,
      ssp_interaction_id = ''urn:nhs:names:services:gpconnect:fhir:rest:search:slot-1'',
      payload = SlotQuery (''ge'' @ fromDate) (''le'' @ toDate) ''free''
                  [''Slot:schedule'', ''Schedule:actor:Practitioner'']\<rparr>"

definition searchAvailableSlots_try ::
  "collaborators \<Rightarrow> GPConnectService \<Rightarrow> process_env \<Rightarrow> string \<Rightarrow> string \<Rightarrow> string \<Rightarrow> int \<Rightarrow> world
     \<Rightarrow> (error + AppointmentSlot list) \<times> world" where
  \<comment> \<open>the body of the \<open>try\<close> block: \<open>Inl\<close> is an error thrown inside it\<close>
  "searchAvailableSlots_try x svc env odsCode fromDate toDate duration' w =
     (case getPracticeByODS x env odsCode of
        None \<Rightarrow> (Inl (Error (''GP practice not found: '' @ odsCode)), w)
      | Some practice \<Rightarrow>
          if no_signing_mode env then
            (let (slots, w1) = getMockSlots x w in (Inr slots, w1))
          else
            (case generateJWT x svc env (asid practice) (gp_connect_endpoint practice) w of
               (Inl err, w1) \<Rightarrow> (Inl err, w1)
             | (Inr jwtToken, w1) \<Rightarrow>
                 (let (traceId, w2) = draw_uuid x w1;
                      request = slot_search_request env practice jwtToken traceId fromDate toDate;
                      w3 = w2\<lparr>http_log := http_log w2 @ [request]\<rparr>
                  in case http_get x request of
                       Inl err \<Rightarrow> (Inl err, w3)
                     | Inr data \<Rightarrow>
                         (case transform_response data of
                            Inl err \<Rightarrow> (Inl err, w3)
                          | Inr slots \<Rightarrow> (Inr slots, w3)))))"

definition searchAvailableSlots ::
  "collaborators \<Rightarrow> GPConnectService \<Rightarrow> process_env \<Rightarrow> string \<Rightarrow> string \<Rightarrow> string \<Rightarrow> int \<Rightarrow> world
     \<Rightarrow> (error + AppointmentSlot list) \<times> world" where
  \<comment> \<open>the \<open>try\<close> block with its \<open>catch\<close>: any error inside is answered with the mock slots\<close>
  "searchAvailableSlots x svc env odsCode fromDate toDate duration' w =
     (case searchAvailableSlots_try x svc env odsCode fromDate toDate duration' w of
        (Inr slots, w1) \<Rightarrow> (Inr slots, w1)
      | (Inl err, w1) \<Rightarrow> (let (slots, w2) = getMockSlots x w1 in (Inr slots, w2)))"

subsection \<open>bookAppointment\<close>

definition build_appointment :: "BookingRequest \<Rightarrow> int \<Rightarrow> int \<Rightarrow> Appointment" where
  \<comment> \<open>the object literal \<open>appointmentResource\<close>; \<open>now_start\<close> is the time value of
      \<open>new Date()\<close> and \<open>now_end\<close> the value of the \<open>Date.now()\<close> that follows it\<close>
  "build_appointment req now_start now_end =
     \<lparr>resourceType = ''Appointment'',
      appointment_id = None,
      appointment_status = ''booked'',
      serviceType = Some [[\<lparr>coding_system = ''http://hl7.org/fhir/service-type'',
                             coding_code = ''gp'',
                             coding_display = ''General Practice''\<rparr>]],
      reasonCode = Some [reasonForAppointment req],
      appointment_start = ISOString now_start,
      appointment_end = ISOString (now_end + duration req * 60000),
      minutesDuration = duration req,
      participants =
        [\<lparr>actor_identifier_system = ''https://fhir.nhs.uk/Id/nhs-number'',
          actor_identifier_value = patientNHSNumber req,
          participant_status = ''accepted''\<rparr>]\<rparr>"

definition create_appointment_request ::
  "process_env \<Rightarrow> GPPractice \<Rightarrow> string \<Rightarrow> string \<Rightarrow> Appointment \<Rightarrow> http_request" where
  "create_appointment_request env practice jwtToken traceId appointmentResource =
     \<lparr>http_method = ''POST'',
      url = gp_connect_endpoint practice @ ''/Appointment'',
      authorization = ''Bearer '' @ jwtToken,
      ssp_trace_id = traceId,
      ssp_from = NHS_ASID env,
      ssp_to = asid practice,
      ssp_interaction_id = ''urn:nhs:names:services:gpconnect:fhir:rest:create:appointment-1'',
      payload = AppointmentBody appointmentResource\<rparr>"

definition build_row :: "BookingRequest \<Rightarrow> string \<Rightarrow> int \<Rightarrow> int \<Rightarrow> appointment_row" where
  "build_row req appointmentId now_start now_end =
     \<lparr>row_appointment_id = appointmentId,
      patient_nhs_number = patientNHSNumber req,
      practice_ods_code = gpPracticeODSCode req,
      appointment_type = appointmentType req,
      row_appointment_start = now_start,
      row_appointment_end = now_end + duration req * 60000,
      reason_for_appointment = reasonForAppointment req,
      row_urgency = urgency req,
      duration_minutes = duration req,
      booked_by = bookedBy req,
      row_status = ''booked''\<rparr>"

definition getMockBookingResponse ::
  "collaborators \<Rightarrow> BookingRequest \<Rightarrow> world \<Rightarrow> BookingResult \<times> world" where
  "getMockBookingResponse x req w =
     (let (appointmentId, w1) = draw_uuid x w;
          (emailId, w2) = draw_uuid x w1
      in (\<lparr>appointment =
             \<lparr>resourceType = ''Appointment'',
              appointment_id = Some appointmentId,
              appointment_status = ''booked'',
              serviceType = None,
              reasonCode = None,
              appointment_start = Literal ''2024-12-02T10:00:00Z'',
              appointment_end = Literal ''2024-12-02T10:15:00Z'',
              minutesDuration = duration req,
              participants =
                [\<lparr>actor_identifier_system = ''https://fhir.nhs.uk/Id/nhs-number'',
                  actor_identifier_value = patientNHSNumber req,
                  participant_status = ''accepted''\<rparr>]\<rparr>,
           notifications =
             [\<lparr>method_name = ''email'', success = True, messageId = Some (''email-'' @ emailId)\<rparr>,
              \<lparr>method_name = ''mesh'', success = True, messageId = None\<rparr>]\<rparr>,
          w2))"

definition bookAppointment_try ::
  "collaborators \<Rightarrow> GPConnectService \<Rightarrow> process_env \<Rightarrow> BookingRequest \<Rightarrow> world
     \<Rightarrow> (error + BookingResult) \<times> world" where
  \<comment> \<open>the body of the \<open>try\<close> block: \<open>Inl\<close> is an error thrown inside it. The
      notification step only logs and is left out.\<close>
  "bookAppointment_try x svc env req w =
     (case getPracticeByODS x env (gpPracticeODSCode req) of
        None \<Rightarrow> (Inl (Error (''GP practice not found: '' @ gpPracticeODSCode req)), w)
      | Some practice \<Rightarrow>
          (case generateJWT x svc env (asid practice) (gp_connect_endpoint practice) w of
             (Inl err, w1) \<Rightarrow> (Inl err, w1)
           | (Inr jwtToken, w1) \<Rightarrow>
               (let (appointmentId, w2) = draw_uuid x w1;
                    (now_start, w3) = read_clock x w2;
                    (now_end, w4) = read_clock x w3;
                    appointmentResource = build_appointment req now_start now_end;
                    (traceId, w5) = draw_uuid x w4;
                    request = create_appointment_request env practice jwtToken traceId
                                appointmentResource;
                    w6 = w5\<lparr>http_log := http_log w5 @ [request]\<rparr>
                in case http_post x request of
                     Some err \<Rightarrow> (Inl err, w6)
                   | None \<Rightarrow>
                       (let (row_start, w7) = read_clock x w6;
                            (row_end, w8) = read_clock x w7;
                            row = build_row req appointmentId row_start row_end
                        in case appointments_insert x row of
                             Some err \<Rightarrow> (Inl err, w8)
                           | None \<Rightarrow>
                               (let w9 = w8\<lparr>inserted := inserted w8 @ [row]\<rparr>;
                                    (emailId, w10) = draw_uuid x w9
                                in (Inr \<lparr>appointment = appointmentResource,
                                         notifications =
                                           [\<lparr>method_name = ''email'', success = True,
                                             messageId = Some (''email-'' @ emailId)\<rparr>,
                                            \<lparr>method_name = ''mesh'', success = True,
                                             messageId = None\<rparr>]\<rparr>,
                                    w10))))))"

definition bookAppointment ::
  "collaborators \<Rightarrow> GPConnectService \<Rightarrow> process_env \<Rightarrow> BookingRequest \<Rightarrow> world
     \<Rightarrow> (error + BookingResult) \<times> world" where
  \<comment> \<open>the \<open>try\<close> block with its \<open>catch\<close>: the mock response when \<open>NODE_ENV\<close> is
      \<open>development\<close>, the same error thrown again otherwise\<close>
  "bookAppointment x svc env req w =
     (case bookAppointment_try x svc env req w of
        (Inr result, w1) \<Rightarrow> (Inr result, w1)
      | (Inl err, w1) \<Rightarrow>
          if NODE_ENV env = Some ''development'' then
            (let (result, w2) = getMockBookingResponse x req w1 in (Inr result, w2))
          else (Inl err, w1))"

subsection \<open>Reading timestamps back\<close>

definition digits_value :: "string \<Rightarrow> int option" where
  "digits_value s =
     (if s \<noteq> [] \<and> list_all is_digit s
      then Some (fold (\<lambda>c n. 10 * n + Number_char c) s 0) else None)"

definition days_from_civil :: "int \<Rightarrow> int \<Rightarrow> int \<Rightarrow> int" where
  \<comment> \<open>days from 1970-01-01 to the given day of the proleptic Gregorian calendar\<close>
  "days_from_civil y m d =
     (let y' = (if m \<le> 2 then y - 1 else y);
          era = y' div 400;
          yoe = y' - era * 400;
          doy = (153 * (if m > 2 then m - 3 else m + 9) + 2) div 5 + d - 1;
          doe = yoe * 365 + yoe div 4 - yoe div 100 + doy
      in era * 146097 + doe - 719468)"

definition Date_parse :: "timestamp \<Rightarrow> int option" where
  \<comment> \<open>the time value in milliseconds that \<open>Date.parse\<close> gives a timestamp string; of the
      strings taken as they are, only the form \<open>YYYY-MM-DDTHH:MM:SSZ\<close> is read\<close>
  "Date_parse ts =
     (case ts of
        ISOString ms \<Rightarrow> Some ms
      | Literal s \<Rightarrow>
          if length s = 20 \<and> s ! 4 = CHR ''-'' \<and> s ! 7 = CHR ''-'' \<and> s ! 10 = CHR ''T''
             \<and> s ! 13 = CHR '':'' \<and> s ! 16 = CHR '':'' \<and> s ! 19 = CHR ''Z''
          then
            (case (digits_value (take 4 s), digits_value (take 2 (drop 5 s)),
                   digits_value (take 2 (drop 8 s)), digits_value (take 2 (drop 11 s)),
                   digits_value (take 2 (drop 14 s)), digits_value (take 2 (drop 17 s))) of
               (Some y, Some mo, Some d, Some h, Some mi, Some se) \<Rightarrow>
                 if 1 \<le> mo \<and> mo \<le> 12 \<and> 1 \<le> d \<and> d \<le> 31 \<and> h < 24 \<and> mi < 60 \<and> se < 60
                 then Some ((((days_from_civil y mo d * 24 + h) * 60 + mi) * 60 + se) * 1000)
                 else None
             | _ \<Rightarrow> None)
          else None)"

definition elapsed_ms :: "timestamp \<Rightarrow> timestamp \<Rightarrow> int option" where
  \<comment> \<open>end minus start, in milliseconds, when both strings are read\<close>
  "elapsed_ms start end' =
     (case (Date_parse start, Date_parse end') of
        (Some s, Some e) \<Rightarrow> Some (e - s)
      | _ \<Rightarrow> None)"

subsection \<open>Properties named by the claims\<close>

definition directory_unresolved :: "collaborators \<Rightarrow> process_env \<Rightarrow> string \<Rightarrow> bool" where
  \<comment> \<open>no demo practice has the code (demo mode); no active row of the table has it, or
      the query raises and the code is not the one the fallback knows (otherwise)\<close>
  "directory_unresolved x env odsCode =
     (if demo_mode env then odsCode \<notin> set (map ods_code mockPractices)
      else
        (case gp_practices x of
           Inr rows \<Rightarrow> odsCode \<notin> set (map ods_code (filter active rows))
         | Inl err \<Rightarrow> odsCode \<noteq> ''A12345''))"

definition slot_search_raises :: "collaborators \<Rightarrow> http_request \<Rightarrow> bool" where
  \<comment> \<open>the HTTP call raises (network error, non-2xx status), or it returns a response
      without a body, or with an entry list in which some entry has no resource\<close>
  "slot_search_raises x request =
     (case http_get x request of
        Inl err \<Rightarrow> True
      | Inr None \<Rightarrow> True
      | Inr (Some bundle) \<Rightarrow>
          (case entry bundle of
             None \<Rightarrow> False
           | Some es \<Rightarrow> list_ex (\<lambda>e. resource e = None) es))"

subsection \<open>Sample configurations\<close>

definition world0 :: world where
  "world0 = \<lparr>clock_reads = 0, uuids_drawn = 0, http_log = [], inserted = []\<rparr>"

definition sample_env :: "string option \<Rightarrow> process_env" where
  \<comment> \<open>a configuration with database password and signing key set, for a given \<open>NODE_ENV\<close>\<close>
  "sample_env node_env =
     \<lparr>NODE_ENV = node_env, DB_PASSWORD = Some ''secret'', GP_CONNECT_JWT_KEY = Some ''key'',
      NHS_ASID = Some ''200000000359'', NHS_ORGANIZATION_CODE = Some ''X26'',
      NHS_USER_ID = Some ''user-1''\<rparr>"

definition demo_env :: process_env where
  \<comment> \<open>nothing configured but \<open>NODE_ENV=demo\<close>\<close>
  "demo_env =
     \<lparr>NODE_ENV = Some ''demo'', DB_PASSWORD = None, GP_CONNECT_JWT_KEY = None,
      NHS_ASID = None, NHS_ORGANIZATION_CODE = None, NHS_USER_ID = None\<rparr>"

definition failing_collaborators :: collaborators where
  \<comment> \<open>a clock that advances one millisecond per reading from 2024-12-01T00:00:00.999Z, the
      table holding the example practice, a practice endpoint that cannot be reached, and
      a signer whose token shows the expiry and issued-at claims it was given\<close>
  "failing_collaborators =
     \<lparr>Date_now = (\<lambda>k. 1733011200999 + int k),
      uuidv4 = (\<lambda>k. ''uuid-'' @ String_num (int k)),
      gp_practices = Inr [example_medical_centre],
      appointments_insert = (\<lambda>row. None),
      http_get = (\<lambda>request. Inl (Error ''Network Error'')),
      http_post = (\<lambda>request. Some (Error ''Network Error'')),
      jwt_sign = (\<lambda>p key. Inr (''exp='' @ String_num (jwt_exp p) @ '';iat='' @ String_num (jwt_iat p)))\<rparr>"

definition working_collaborators :: collaborators where
  \<comment> \<open>the same, with an endpoint that accepts the create call and returns no slots\<close>
  "working_collaborators =
     failing_collaborators
       \<lparr>http_get := (\<lambda>request. Inr (Some \<lparr>entry = Some []\<rparr>)),
        http_post := (\<lambda>request. None)\<rparr>"

definition sample_request :: "int \<Rightarrow> BookingRequest" where
  "sample_request minutes =
     \<lparr>patientNHSNumber = ''9876543210'', gpPracticeODSCode = ''A12345'',
      appointmentType = ''routine'', reasonForAppointment = ''Annual health check'',
      urgency = ''routine'', duration = minutes, bookedBy = ''patient-1'',
      contact = \<lparr>phone = None, email = None, sms = Some False\<rparr>\<rparr>"

section \<open>The checksum validator and the generator\<close>

lemma fold_add: "fold (\<lambda>i (s::int). s + f i) xs a = a + (\<Sum>i\<leftarrow>xs. f i)"
  by (induction xs arbitrary: a) auto

lemma weighted_sum_sum: "weighted_sum ds = (\<Sum>i\<leftarrow>[0..<9]. ds ! i * (10 - int i))"
  by (simp add: weighted_sum_def fold_add)


lemma weighted_sum_digits:
  assumes "length s = 10"
  shows "weighted_sum (map Number_char s) = (\<Sum>i\<leftarrow>[0..<9]. Number_char (s ! i) * (10 - int i))"
proof -
  have "map (\<lambda>i. map Number_char s ! i * (10 - int i)) [0..<9]
      = map (\<lambda>i. Number_char (s ! i) * (10 - int i)) [0..<9]"
    by (rule map_cong) (simp_all add: assms)
  then show ?thesis by (simp only: weighted_sum_sum)
qed

text \<open>
  Claim C1, as amended. On every string of ten ASCII digits the validator agrees with the
  direct recomputation of the weighted modulus-11 algorithm whenever the computed check
  digit is not 10. When the computed check digit is exactly 10 the validator does not
  reject: it maps 10 to 0 as it does 11, and accepts the string exactly when its tenth
  digit is 0.
\<close>

theorem validateNHSNumber_vs_spec:
  assumes "matches_ten_digits s"
  shows "validateNHSNumber s =
           (if spec_check_digit s = 10 then Number_char (s ! 9) = 0 else spec_valid s)"
proof -
  from assms have len: "length s = 10" and dig: "list_all is_digit s"
    by (simp_all add: matches_ten_digits_def)
  have cd: "11 - weighted_sum (map Number_char s) mod 11 = spec_check_digit s"
    unfolding spec_check_digit_def weighted_sum_digits [OF len] ..
  have n9: "map Number_char s ! 9 = Number_char (s ! 9)"
    using len by simp
  have "validateNHSNumber s =
          ((if spec_check_digit s = 11 then 0 else if spec_check_digit s = 10 then 0
            else spec_check_digit s) = Number_char (s ! 9))"
    unfolding validateNHSNumber_def Let_def cd n9 using assms by simp
  also have "\<dots> = (if spec_check_digit s = 10 then Number_char (s ! 9) = 0 else spec_valid s)"
    using len dig by (simp add: spec_valid_def Let_def eq_commute [of 0])
  finally show ?thesis .
qed

theorem validateNHSNumber_vs_spec_witness:
  "matches_ten_digits ''9876543210'' \<and> validateNHSNumber ''9876543210''
   \<and> spec_check_digit ''9876543210'' = 11 \<and> spec_valid ''9876543210''"
  using validateNHSNumber_vs_spec [of "''9876543210''"]
  by (simp add: matches_ten_digits_def is_digit_def spec_check_digit_def spec_valid_def
        Number_char_def upt_rec)

text \<open>
  The claim as stated fails at \<open>0000000400\<close>: the weighted sum is 12, the computed check
  digit is 10, the direct recomputation rejects, and the validator accepts.
\<close>

theorem validateNHSNumber_accepts_check_digit_ten:
  "matches_ten_digits ''0000000400'' \<and> spec_check_digit ''0000000400'' = 10
   \<and> \<not> spec_valid ''0000000400'' \<and> validateNHSNumber ''0000000400''"
  by (simp add: validateNHSNumber_def spec_valid_def matches_ten_digits_def is_digit_def
        Number_char_def weighted_sum_def spec_check_digit_def upt_rec)












section \<open>The GP Connect service\<close>

text \<open>Definitions unfolded when a sample run is evaluated.\<close>

lemmas env_defs = demo_env_def sample_env_def demo_mode_def no_signing_mode_def truthy_def
  new_GPConnectService_def

lemmas sample_defs = failing_collaborators_def working_collaborators_def world0_def
  sample_request_def example_medical_centre_def mockPractices_def

lemmas run_defs = getPracticeByODS_def searchAvailableSlots_def searchAvailableSlots_try_def
  bookAppointment_def bookAppointment_try_def getMockSlots_def getMockBookingResponse_def
  generateJWT_def build_jwt_payload_def build_appointment_def build_row_def
  slot_search_request_def create_appointment_request_def read_clock_def draw_uuid_def Let_def
  char_of_def

lemmas time_defs = elapsed_ms_def Date_parse_def digits_value_def days_from_civil_def
  is_digit_def Number_char_def

lemma getMockSlots_eq:
  "getMockSlots x w =
     (let now = Date_now x (clock_reads w); u = (\<lambda>i. uuidv4 x (uuids_drawn w + i)) in
      ([\<lparr>slot_id = ''slot-'' @ u 0, slot_start = ISOString (now + 118800000),
         slot_end = ISOString (now + 119700000), slot_status = ''free'',
         slot_practitioner = \<lparr>reference = ''Practitioner/dr-smith'', display = ''Dr. Sarah Smith''\<rparr>\<rparr>,
        \<lparr>slot_id = ''slot-'' @ u 1, slot_start = ISOString (now + 124200000),
         slot_end = ISOString (now + 125100000), slot_status = ''free'',
         slot_practitioner = \<lparr>reference = ''Practitioner/dr-wilson'', display = ''Dr. James Wilson''\<rparr>\<rparr>,
        \<lparr>slot_id = ''slot-'' @ u 2, slot_start = ISOString (now + 136800000),
         slot_end = ISOString (now + 137700000), slot_status = ''free'',
         slot_practitioner = \<lparr>reference = ''Practitioner/dr-johnson'', display = ''Dr. Emily Johnson''\<rparr>\<rparr>,
        \<lparr>slot_id = ''slot-'' @ u 3, slot_start = ISOString (now + 213300000),
         slot_end = ISOString (now + 214200000), slot_status = ''free'',
         slot_practitioner = \<lparr>reference = ''Practitioner/dr-brown'', display = ''Dr. Michael Brown''\<rparr>\<rparr>],
       w\<lparr>clock_reads := Suc (clock_reads w), uuids_drawn := uuids_drawn w + 4\<rparr>))"
  by (simp add: getMockSlots_def read_clock_def draw_uuid_def Let_def eval_nat_numeral)

lemma getMockSlots_length: "length (fst (getMockSlots x w)) = 4"
  by (simp add: getMockSlots_eq Let_def)

lemma getMockSlots_http_log: "http_log (snd (getMockSlots x w)) = http_log w"
  by (simp add: getMockSlots_eq Let_def)

lemma search_after_try:
  "searchAvailableSlots x svc env odsCode fromDate toDate d w =
     (case searchAvailableSlots_try x svc env odsCode fromDate toDate d w of
        (Inr slots, w1) \<Rightarrow> (Inr slots, w1)
      | (Inl err, w1) \<Rightarrow> (Inr (fst (getMockSlots x w1)), snd (getMockSlots x w1)))"
  by (simp add: searchAvailableSlots_def split: prod.splits sum.splits)

lemma search_never_raises:
  "\<exists>slots. fst (searchAvailableSlots x svc env odsCode fromDate toDate d w) = Inr slots"
  by (simp add: search_after_try split: prod.splits sum.splits)

lemma unresolved_lookup:
  assumes "directory_unresolved x env odsCode"
  shows "getPracticeByODS x env odsCode = None"
proof (cases "demo_mode env")
  case True
  with assms show ?thesis
    by (auto simp add: directory_unresolved_def getPracticeByODS_def find_None_iff)
next
  case False
  with assms show ?thesis
    by (cases "gp_practices x")
       (auto simp add: directory_unresolved_def getPracticeByODS_def find_None_iff)
qed

lemma search_try_unresolved:
  assumes "getPracticeByODS x env odsCode = None"
  shows "searchAvailableSlots_try x svc env odsCode fromDate toDate d w =
           (Inl (Error (''GP practice not found: '' @ odsCode)), w)"
  using assms by (simp add: searchAvailableSlots_try_def)

lemma book_try_unresolved:
  assumes "getPracticeByODS x env (gpPracticeODSCode req) = None"
  shows "bookAppointment_try x svc env req w =
           (Inl (Error (''GP practice not found: '' @ gpPracticeODSCode req)), w)"
  using assms by (simp add: bookAppointment_try_def)

lemma getMockBookingResponse_http_log: "http_log (snd (getMockBookingResponse x req w)) = http_log w"
  by (simp add: getMockBookingResponse_def draw_uuid_def Let_def)

lemma book_after_try:
  "bookAppointment x svc env req w =
     (case bookAppointment_try x svc env req w of
        (Inr result, w1) \<Rightarrow> (Inr result, w1)
      | (Inl err, w1) \<Rightarrow>
          if NODE_ENV env = Some ''development''
          then (Inr (fst (getMockBookingResponse x req w1)), snd (getMockBookingResponse x req w1))
          else (Inl err, w1))"
  by (simp add: bookAppointment_def split: prod.splits sum.splits)

text \<open>
  Claim C2, as amended. For every organization code that the practice directory does not
  resolve, \<open>getPracticeByODS\<close> returns null. In \<open>searchAvailableSlots\<close> and in
  \<open>bookAppointment\<close> the not-found error is then raised at once, with nothing done
  before it, and neither operation issues an HTTP call. \<open>bookAppointment\<close> delivers
  that error to its caller whenever \<open>NODE_ENV\<close> is not \<open>development\<close>.
\<close>

theorem unknown_practice_not_found:
  assumes "directory_unresolved x env odsCode"
  shows "getPracticeByODS x env odsCode = None
       \<and> searchAvailableSlots_try x svc env odsCode fromDate toDate d w =
           (Inl (Error (''GP practice not found: '' @ odsCode)), w)
       \<and> http_log (snd (searchAvailableSlots x svc env odsCode fromDate toDate d w)) = http_log w
       \<and> bookAppointment_try x svc env (req\<lparr>gpPracticeODSCode := odsCode\<rparr>) w =
           (Inl (Error (''GP practice not found: '' @ odsCode)), w)
       \<and> http_log (snd (bookAppointment x svc env (req\<lparr>gpPracticeODSCode := odsCode\<rparr>) w)) = http_log w
       \<and> (NODE_ENV env \<noteq> Some ''development'' \<longrightarrow>
            bookAppointment x svc env (req\<lparr>gpPracticeODSCode := odsCode\<rparr>) w =
              (Inl (Error (''GP practice not found: '' @ odsCode)), w))"
proof -
  have none: "getPracticeByODS x env odsCode = None"
    by (rule unresolved_lookup [OF assms])
  have s: "searchAvailableSlots_try x svc env odsCode fromDate toDate d w =
           (Inl (Error (''GP practice not found: '' @ odsCode)), w)"
    by (rule search_try_unresolved [OF none])
  have b: "bookAppointment_try x svc env (req\<lparr>gpPracticeODSCode := odsCode\<rparr>) w =
           (Inl (Error (''GP practice not found: '' @ odsCode)), w)"
    using book_try_unresolved [of x env "req\<lparr>gpPracticeODSCode := odsCode\<rparr>" svc w] none by simp
  have sl: "http_log (snd (searchAvailableSlots x svc env odsCode fromDate toDate d w)) = http_log w"
    by (simp add: search_after_try s getMockSlots_http_log)
  have bl: "http_log (snd (bookAppointment x svc env (req\<lparr>gpPracticeODSCode := odsCode\<rparr>) w)) = http_log w"
    by (simp add: book_after_try b getMockBookingResponse_http_log)
  have bp: "NODE_ENV env \<noteq> Some ''development'' \<longrightarrow>
            bookAppointment x svc env (req\<lparr>gpPracticeODSCode := odsCode\<rparr>) w =
              (Inl (Error (''GP practice not found: '' @ odsCode)), w)"
    by (simp add: book_after_try b)
  from none s sl b bl bp show ?thesis by blast
qed

theorem unknown_practice_not_found_witness:
  "directory_unresolved failing_collaborators (sample_env (Some ''production'')) ''Z99999''
   \<and> getPracticeByODS failing_collaborators (sample_env (Some ''production'')) ''Z99999'' = None
   \<and> http_log (snd (searchAvailableSlots failing_collaborators
                       (new_GPConnectService (sample_env (Some ''production'')))
                       (sample_env (Some ''production'')) ''Z99999'' ''2024-12-01'' ''2024-12-07'' 15
                       world0)) = []
   \<and> bookAppointment failing_collaborators (new_GPConnectService (sample_env (Some ''production'')))
        (sample_env (Some ''production'')) ((sample_request 15)\<lparr>gpPracticeODSCode := ''Z99999''\<rparr>) world0
       = (Inl (Error ''GP practice not found: Z99999''), world0)"
  using unknown_practice_not_found [of failing_collaborators "sample_env (Some ''production'')"
      "''Z99999''" "new_GPConnectService (sample_env (Some ''production''))"
      "''2024-12-01''" "''2024-12-07''" 15 world0 "sample_request 15"]
  by (simp add: directory_unresolved_def env_defs sample_defs)

text \<open>
  The claim as stated fails for the unknown code \<open>Z99999\<close>: the availability search
  answers with the four mock slots, and in development mode the booking answers with the
  mock booking.
\<close>

theorem unknown_practice_search_returns_mock_slots:
  "directory_unresolved failing_collaborators demo_env ''Z99999''
   \<and> fst (searchAvailableSlots failing_collaborators (new_GPConnectService demo_env) demo_env
            ''Z99999'' ''2024-12-01'' ''2024-12-07'' 15 world0)
       = Inr (fst (getMockSlots failing_collaborators world0))
   \<and> map slot_id (fst (getMockSlots failing_collaborators world0))
       = [''slot-uuid-0'', ''slot-uuid-1'', ''slot-uuid-2'', ''slot-uuid-3'']
   \<and> fst (bookAppointment failing_collaborators
            (new_GPConnectService (sample_env (Some ''development'')))
            (sample_env (Some ''development''))
            ((sample_request 15)\<lparr>gpPracticeODSCode := ''Z99999''\<rparr>) world0)
       = Inr (fst (getMockBookingResponse failing_collaborators
                     ((sample_request 15)\<lparr>gpPracticeODSCode := ''Z99999''\<rparr>) world0))"
  by (simp add: directory_unresolved_def env_defs sample_defs getPracticeByODS_def
        searchAvailableSlots_def searchAvailableSlots_try_def bookAppointment_def
        bookAppointment_try_def getMockSlots_def getMockBookingResponse_def read_clock_def
        draw_uuid_def Let_def char_of_def)

lemma filter_slot_entries_raises:
  "(\<exists>err. filter_slot_entries es = Inl err) = list_ex (\<lambda>e. resource e = None) es"
  by (induction es) (auto split: option.splits sum.splits)

lemma transform_response_raises:
  "(\<exists>err. transform_response data = Inl err) =
     (case data of
        None \<Rightarrow> True
      | Some bundle \<Rightarrow>
          (case entry bundle of
             None \<Rightarrow> False
           | Some es \<Rightarrow> list_ex (\<lambda>e. resource e = None) es))"
proof (cases data)
  case None
  then show ?thesis by (simp add: transform_response_def)
next
  case (Some body)
  show ?thesis
  proof (cases "entry body")
    case None
    with Some show ?thesis by (simp add: transform_response_def)
  next
    case es: (Some es)
    have "(\<exists>err. transform_response data = Inl err) = (\<exists>err. filter_slot_entries es = Inl err)"
      using Some es by (auto simp add: transform_response_def split: sum.splits)
    with Some es show ?thesis
      by (simp add: filter_slot_entries_raises)
  qed
qed

lemma slot_search_raises_iff:
  "slot_search_raises x request =
     (case http_get x request of
        Inl err \<Rightarrow> True
      | Inr data \<Rightarrow> (\<exists>err. transform_response data = Inl err))"
  by (simp add: slot_search_raises_def transform_response_raises
        split: sum.splits option.splits)

lemma search_try_after_token:
  assumes p: "getPracticeByODS x env odsCode = Some practice"
    and m: "\<not> no_signing_mode env"
    and j: "generateJWT x svc env (asid practice) (gp_connect_endpoint practice) w = (Inr jwtToken, w1)"
  shows "fst (searchAvailableSlots_try x svc env odsCode fromDate toDate d w) =
           (case http_get x (slot_search_request env practice jwtToken
                               (uuidv4 x (uuids_drawn w1)) fromDate toDate) of
              Inl err \<Rightarrow> Inl err
            | Inr data \<Rightarrow> transform_response data)"
  by (simp add: searchAvailableSlots_try_def p m j draw_uuid_def Let_def split: sum.splits)

text \<open>
  Claim C3, as amended. Take a search that reaches the practice's endpoint (the practice
  resolves, a signing key is configured, the assertion is generated). If the HTTP call
  raises (network error, non-2xx status), or its response has no body or holds an entry
  without a resource, \<open>searchAvailableSlots\<close> raises nothing and returns the mock
  list of exactly 4 slots. In every other case it returns the slots read from the
  response; a response whose body has no entry list is such a case, and is answered
  with the empty list.
\<close>

theorem search_falls_back_when_call_raises:
  assumes "getPracticeByODS x env odsCode = Some practice"
    and "\<not> no_signing_mode env"
    and "generateJWT x svc env (asid practice) (gp_connect_endpoint practice) w = (Inr jwtToken, w1)"
    and "request = slot_search_request env practice jwtToken (uuidv4 x (uuids_drawn w1))
                     fromDate toDate"
  shows "(slot_search_raises x request \<longrightarrow>
            (\<exists>w3. searchAvailableSlots x svc env odsCode fromDate toDate d w =
                     (Inr (fst (getMockSlots x w3)), snd (getMockSlots x w3))
                  \<and> length (fst (getMockSlots x w3)) = 4))
       \<and> (\<not> slot_search_raises x request \<longrightarrow>
            (\<exists>data slots. http_get x request = Inr data \<and> transform_response data = Inr slots
                  \<and> fst (searchAvailableSlots x svc env odsCode fromDate toDate d w) = Inr slots))
       \<and> (\<forall>bundle. http_get x request = Inr (Some bundle) \<and> entry bundle = None \<longrightarrow>
            fst (searchAvailableSlots x svc env odsCode fromDate toDate d w) = Inr [])"
proof -
  note t = search_try_after_token [OF assms(1-3), of fromDate toDate d, folded assms(4)]
  have a: "\<exists>w3. searchAvailableSlots x svc env odsCode fromDate toDate d w =
                     (Inr (fst (getMockSlots x w3)), snd (getMockSlots x w3))
                  \<and> length (fst (getMockSlots x w3)) = 4"
    if r: "slot_search_raises x request"
  proof -
    from r t obtain err where
      "fst (searchAvailableSlots_try x svc env odsCode fromDate toDate d w) = Inl err"
      by (auto simp add: slot_search_raises_iff split: sum.splits)
    then obtain w3 where
      "searchAvailableSlots_try x svc env odsCode fromDate toDate d w = (Inl err, w3)"
      by (cases "searchAvailableSlots_try x svc env odsCode fromDate toDate d w") simp
    then have "searchAvailableSlots x svc env odsCode fromDate toDate d w =
                 (Inr (fst (getMockSlots x w3)), snd (getMockSlots x w3))"
      by (simp add: search_after_try)
    then show ?thesis using getMockSlots_length by blast
  qed
  have b: "\<exists>data slots. http_get x request = Inr data \<and> transform_response data = Inr slots
                  \<and> fst (searchAvailableSlots x svc env odsCode fromDate toDate d w) = Inr slots"
    if r: "\<not> slot_search_raises x request"
  proof -
    from r obtain data where g: "http_get x request = Inr data"
      by (cases "http_get x request") (simp_all add: slot_search_raises_iff)
    with r obtain slots where s: "transform_response data = Inr slots"
      by (cases "transform_response data") (simp_all add: slot_search_raises_iff)
    from t g s have "fst (searchAvailableSlots_try x svc env odsCode fromDate toDate d w) = Inr slots"
      by simp
    then have "fst (searchAvailableSlots x svc env odsCode fromDate toDate d w) = Inr slots"
      by (cases "searchAvailableSlots_try x svc env odsCode fromDate toDate d w")
         (simp add: search_after_try)
    with g s show ?thesis by blast
  qed
  have c: "fst (searchAvailableSlots x svc env odsCode fromDate toDate d w) = Inr []"
    if g: "http_get x request = Inr (Some body)" and e: "entry body = None" for body
  proof -
    from t g e have "fst (searchAvailableSlots_try x svc env odsCode fromDate toDate d w) = Inr []"
      by (simp add: transform_response_def)
    then show ?thesis
      by (cases "searchAvailableSlots_try x svc env odsCode fromDate toDate d w")
         (simp add: search_after_try)
  qed
  from a b c show ?thesis by blast
qed

theorem search_falls_back_when_call_raises_witness:
  "getPracticeByODS failing_collaborators (sample_env (Some ''production'')) ''A12345''
     = Some example_medical_centre
   \<and> \<not> no_signing_mode (sample_env (Some ''production''))
   \<and> generateJWT failing_collaborators (new_GPConnectService (sample_env (Some ''production'')))
        (sample_env (Some ''production'')) (asid example_medical_centre)
        (gp_connect_endpoint example_medical_centre) world0
       = (Inr ''exp=1733011500;iat=1733011201'', world0\<lparr>clock_reads := 2\<rparr>)
   \<and> slot_search_raises failing_collaborators
        (slot_search_request (sample_env (Some ''production'')) example_medical_centre
           ''exp=1733011500;iat=1733011201''
           (uuidv4 failing_collaborators (uuids_drawn (world0\<lparr>clock_reads := 2\<rparr>)))
           ''2024-12-01'' ''2024-12-07'')
   \<and> (\<exists>w3. searchAvailableSlots failing_collaborators
               (new_GPConnectService (sample_env (Some ''production'')))
               (sample_env (Some ''production'')) ''A12345'' ''2024-12-01'' ''2024-12-07'' 15 world0
              = (Inr (fst (getMockSlots failing_collaborators w3)),
                 snd (getMockSlots failing_collaborators w3))
            \<and> length (fst (getMockSlots failing_collaborators w3)) = 4)"
proof -
  have h1: "getPracticeByODS failing_collaborators (sample_env (Some ''production'')) ''A12345''
     = Some example_medical_centre"
    by (simp add: env_defs sample_defs getPracticeByODS_def)
  have h2: "\<not> no_signing_mode (sample_env (Some ''production''))"
    by (simp add: env_defs)
  have h3: "generateJWT failing_collaborators (new_GPConnectService (sample_env (Some ''production'')))
        (sample_env (Some ''production'')) (asid example_medical_centre)
        (gp_connect_endpoint example_medical_centre) world0
       = (Inr ''exp=1733011500;iat=1733011201'', world0\<lparr>clock_reads := 2\<rparr>)"
    by (simp add: env_defs sample_defs run_defs)
  have h4: "slot_search_raises failing_collaborators
        (slot_search_request (sample_env (Some ''production'')) example_medical_centre
           ''exp=1733011500;iat=1733011201''
           (uuidv4 failing_collaborators (uuids_drawn (world0\<lparr>clock_reads := 2\<rparr>)))
           ''2024-12-01'' ''2024-12-07'')"
    by (simp add: slot_search_raises_def failing_collaborators_def)
  from search_falls_back_when_call_raises [OF h1 h2 h3 refl, of "''2024-12-01''" "''2024-12-07''" 15]
    h1 h2 h3 h4
  show ?thesis by blast
qed

text \<open>
  The claim as stated fails for a malformed response that raises nothing: when the
  endpoint answers with a body that has no entry list, the search for the known practice
  \<open>A12345\<close> returns the empty list, not the four mock slots.
\<close>

theorem search_returns_empty_list_for_body_without_entries:
  "getPracticeByODS failing_collaborators (sample_env (Some ''production'')) ''A12345''
     = Some example_medical_centre
   \<and> \<not> no_signing_mode (sample_env (Some ''production''))
   \<and> http_get (failing_collaborators\<lparr>http_get := (\<lambda>request. Inr (Some \<lparr>entry = None\<rparr>))\<rparr>)
        (slot_search_request (sample_env (Some ''production'')) example_medical_centre
           ''exp=1733011500;iat=1733011201'' ''uuid-0'' ''2024-12-01'' ''2024-12-07'')
       = Inr (Some \<lparr>entry = None\<rparr>)
   \<and> fst (searchAvailableSlots
            (failing_collaborators\<lparr>http_get := (\<lambda>request. Inr (Some \<lparr>entry = None\<rparr>))\<rparr>)
            (new_GPConnectService (sample_env (Some ''production'')))
            (sample_env (Some ''production'')) ''A12345'' ''2024-12-01'' ''2024-12-07'' 15 world0)
       = Inr []
   \<and> length (fst (getMockSlots
                     (failing_collaborators\<lparr>http_get := (\<lambda>request. Inr (Some \<lparr>entry = None\<rparr>))\<rparr>)
                     world0)) = 4"
  by (simp add: env_defs sample_defs run_defs transform_response_def)

text \<open>
  Claim C4, at the input where the code departs from it. The comment of the catch block
  of \<open>bookAppointment\<close> announces the mock response for development and demo, and
  its guard tests \<open>development\<close> only. In demo mode, a non-production configuration,
  the practice \<open>A12345\<close> resolves, the create call fails, and the caller receives
  the error instead of the canned mock result.
\<close>

theorem booking_propagates_in_demo_mode:
  "NODE_ENV demo_env = Some ''demo''
   \<and> getPracticeByODS failing_collaborators demo_env ''A12345'' = Some example_medical_centre
   \<and> http_post failing_collaborators
        (create_appointment_request demo_env example_medical_centre
           ''demo-jwt-token-1733011200999'' ''uuid-1''
           (build_appointment (sample_request 15) 1733011201000 1733011201001))
       = Some (Error ''Network Error'')
   \<and> fst (bookAppointment failing_collaborators (new_GPConnectService demo_env) demo_env
            (sample_request 15) world0)
       = Inl (Error ''Network Error'')"
  by (simp add: env_defs sample_defs run_defs)

lemma mock_booking_fields:
  "minutesDuration (appointment (fst (getMockBookingResponse x req w))) = duration req
   \<and> map actor_identifier_value (participants (appointment (fst (getMockBookingResponse x req w))))
       = [patientNHSNumber req]"
  by (simp add: getMockBookingResponse_def draw_uuid_def Let_def)

lemma book_try_result:
  assumes "fst (bookAppointment_try x svc env req w) = Inr result"
  shows "\<exists>k. appointment result = build_appointment req (Date_now x k) (Date_now x (Suc k))"
proof (cases "getPracticeByODS x env (gpPracticeODSCode req)")
  case None
  with assms show ?thesis by (simp add: bookAppointment_try_def)
next
  case (Some practice)
  obtain r w1 where j: "generateJWT x svc env (asid practice) (gp_connect_endpoint practice) w = (r, w1)"
    by (cases "generateJWT x svc env (asid practice) (gp_connect_endpoint practice) w")
  show ?thesis
  proof (cases r)
    case (Inl err)
    with assms Some j show ?thesis by (simp add: bookAppointment_try_def)
  next
    case (Inr jwtToken)
    with assms Some j
    have "appointment result =
            build_appointment req (Date_now x (clock_reads w1)) (Date_now x (Suc (clock_reads w1)))"
      by (auto simp add: bookAppointment_try_def read_clock_def draw_uuid_def Let_def
               split: option.splits)
    then show ?thesis by blast
  qed
qed

lemma build_appointment_fields:
  "minutesDuration (build_appointment req t1 t2) = duration req
   \<and> map actor_identifier_value (participants (build_appointment req t1 t2)) = [patientNHSNumber req]
   \<and> elapsed_ms (appointment_start (build_appointment req t1 t2))
                 (appointment_end (build_appointment req t1 t2))
       = Some (duration req * 60000 + (t2 - t1))"
  by (simp add: build_appointment_def elapsed_ms_def Date_parse_def)

text \<open>
  Claim C5, as amended. Whenever \<open>bookAppointment\<close> returns a BookingResult, its
  \<open>minutesDuration\<close> is the requested duration and its only participant's identifier
  value is the request's patient NHS number. When the result comes from the create call
  (not from the mock response), \<open>start\<close> is one clock reading and \<open>end\<close> is the next
  clock reading plus the requested minutes, so end minus start is the requested duration
  plus the time between the two readings.
\<close>

theorem booking_result_fields:
  assumes "fst (bookAppointment x svc env req w) = Inr result"
  shows "minutesDuration (appointment result) = duration req
       \<and> map actor_identifier_value (participants (appointment result)) = [patientNHSNumber req]
       \<and> (fst (bookAppointment_try x svc env req w) = Inr result \<longrightarrow>
            (\<exists>k. elapsed_ms (appointment_start (appointment result))
                            (appointment_end (appointment result))
                  = Some (duration req * 60000 + (Date_now x (Suc k) - Date_now x k))))"
proof (cases "fst (bookAppointment_try x svc env req w)")
  case (Inl err)
  then obtain w1 where t: "bookAppointment_try x svc env req w = (Inl err, w1)"
    by (cases "bookAppointment_try x svc env req w") simp
  with assms have "result = fst (getMockBookingResponse x req w1)"
    by (simp add: book_after_try split: if_splits)
  then show ?thesis using Inl mock_booking_fields [of x req w1] by simp
next
  case (Inr result')
  then obtain w1 where t: "bookAppointment_try x svc env req w = (Inr result', w1)"
    by (cases "bookAppointment_try x svc env req w") simp
  with assms have eq: "result' = result" by (simp add: book_after_try)
  from book_try_result [of x svc env req w result'] Inr obtain k where
    "appointment result' = build_appointment req (Date_now x k) (Date_now x (Suc k))"
    by blast
  with eq show ?thesis
    using build_appointment_fields [of req "Date_now x k" "Date_now x (Suc k)"] by auto
qed

theorem booking_result_fields_witness:
  "fst (bookAppointment working_collaborators
          (new_GPConnectService (sample_env (Some ''production'')))
          (sample_env (Some ''production'')) (sample_request 30) world0)
     = Inr \<lparr>appointment = build_appointment (sample_request 30) 1733011201001 1733011201002,
            notifications =
              [\<lparr>method_name = ''email'', success = True, messageId = Some ''email-uuid-2''\<rparr>,
               \<lparr>method_name = ''mesh'', success = True, messageId = None\<rparr>]\<rparr>
   \<and> minutesDuration (build_appointment (sample_request 30) 1733011201001 1733011201002) = 30
   \<and> map actor_identifier_value
        (participants (build_appointment (sample_request 30) 1733011201001 1733011201002))
       = [''9876543210'']"
proof -
  have h: "fst (bookAppointment working_collaborators
          (new_GPConnectService (sample_env (Some ''production'')))
          (sample_env (Some ''production'')) (sample_request 30) world0)
     = Inr \<lparr>appointment = build_appointment (sample_request 30) 1733011201001 1733011201002,
            notifications =
              [\<lparr>method_name = ''email'', success = True, messageId = Some ''email-uuid-2''\<rparr>,
               \<lparr>method_name = ''mesh'', success = True, messageId = None\<rparr>]\<rparr>"
    by (simp add: env_defs sample_defs run_defs)
  from booking_result_fields [OF h] h show ?thesis
    by (simp add: sample_request_def)
qed

text \<open>
  The claim as stated fails for a request of 30 minutes at the known practice \<open>A12345\<close>
  when the create call fails: in development mode the result spans the fixed 15 minutes
  of the mock response, and in production no result is returned. When the create call
  succeeds and the clock advances by a millisecond between the two readings, the result
  spans 30 minutes and one millisecond.
\<close>

theorem booking_result_duration_counterexample:
  "getPracticeByODS failing_collaborators (sample_env (Some ''development'')) ''A12345''
     = Some example_medical_centre
   \<and> (case fst (bookAppointment failing_collaborators
                   (new_GPConnectService (sample_env (Some ''development'')))
                   (sample_env (Some ''development'')) (sample_request 30) world0) of
         Inl err \<Rightarrow> None
       | Inr result \<Rightarrow>
           Some (minutesDuration (appointment result),
                 appointment_start (appointment result), appointment_end (appointment result),
                 elapsed_ms (appointment_start (appointment result))
                   (appointment_end (appointment result))))
       = Some (30, Literal ''2024-12-02T10:00:00Z'', Literal ''2024-12-02T10:15:00Z'',
               Some (15 * 60000))
   \<and> fst (bookAppointment failing_collaborators
            (new_GPConnectService (sample_env (Some ''production'')))
            (sample_env (Some ''production'')) (sample_request 30) world0)
       = Inl (Error ''Network Error'')
   \<and> (case fst (bookAppointment working_collaborators
                   (new_GPConnectService (sample_env (Some ''production'')))
                   (sample_env (Some ''production'')) (sample_request 30) world0) of
         Inl err \<Rightarrow> None
       | Inr result \<Rightarrow>
           Some (minutesDuration (appointment result),
                 appointment_start (appointment result), appointment_end (appointment result),
                 elapsed_ms (appointment_start (appointment result))
                   (appointment_end (appointment result))))
       = Some (30, ISOString 1733011201001, ISOString 1733013001002, Some (30 * 60000 + 1))"
  by (simp add: env_defs sample_defs run_defs time_defs)

lemma search_demo_mode:
  assumes "no_signing_mode env"
  shows "searchAvailableSlots x svc env odsCode fromDate toDate d w =
           (Inr (fst (getMockSlots x w)), snd (getMockSlots x w))"
  using assms
  by (cases "getPracticeByODS x env odsCode")
     (simp_all add: search_after_try searchAvailableSlots_try_def split: prod.splits)

text \<open>
  Claim C6, as amended. In demo / no-signing-key mode \<open>searchAvailableSlots\<close> returns
  4 mock slots that are determined by the clock reading and the four UUIDs drawn, and by
  nothing else: the identifiers are \<open>slot-\<close> followed by a fresh UUID, the start times
  are 33, 34.5, 38 and 59.25 hours after the clock reading and each end is 15 minutes
  after its start. Two runs that read the same clock value and draw the same UUIDs return
  the same list, whatever their other inputs.
\<close>

theorem demo_slots_depend_on_clock_and_uuids:
  assumes "no_signing_mode env" and "no_signing_mode env'"
    and "Date_now x (clock_reads w) = Date_now x' (clock_reads w')"
    and "\<forall>i<4. uuidv4 x (uuids_drawn w + i) = uuidv4 x' (uuids_drawn w' + i)"
  shows "fst (searchAvailableSlots x svc env odsCode fromDate toDate d w) =
           fst (searchAvailableSlots x' svc' env' odsCode' fromDate' toDate' d' w')
       \<and> (\<exists>slots. fst (searchAvailableSlots x svc env odsCode fromDate toDate d w) = Inr slots
             \<and> length slots = 4
             \<and> map slot_id slots =
                 map (\<lambda>i. ''slot-'' @ uuidv4 x (uuids_drawn w + i)) [0, 1, 2, 3]
             \<and> map slot_start slots =
                 map (\<lambda>offset. ISOString (Date_now x (clock_reads w) + offset))
                   [118800000, 124200000, 136800000, 213300000]
             \<and> map slot_end slots =
                 map (\<lambda>offset. ISOString (Date_now x (clock_reads w) + offset))
                   [119700000, 125100000, 137700000, 214200000])"
proof -
  have u: "uuidv4 x (uuids_drawn w) = uuidv4 x' (uuids_drawn w')"
    "uuidv4 x (uuids_drawn w + 1) = uuidv4 x' (uuids_drawn w' + 1)"
    "uuidv4 x (uuids_drawn w + 2) = uuidv4 x' (uuids_drawn w' + 2)"
    "uuidv4 x (uuids_drawn w + 3) = uuidv4 x' (uuids_drawn w' + 3)"
    using assms(4) [rule_format, of 0] assms(4) [rule_format, of 1]
      assms(4) [rule_format, of 2] assms(4) [rule_format, of 3] by simp_all
  have "fst (getMockSlots x w) = fst (getMockSlots x' w')"
    using assms(3) u by (simp add: getMockSlots_eq Let_def)
  then show ?thesis
    by (simp add: search_demo_mode [OF assms(1)] search_demo_mode [OF assms(2)])
       (simp add: getMockSlots_eq Let_def)
qed

theorem demo_slots_depend_on_clock_and_uuids_witness:
  "no_signing_mode demo_env
   \<and> fst (searchAvailableSlots failing_collaborators (new_GPConnectService demo_env) demo_env
            ''A12345'' ''2024-12-01'' ''2024-12-07'' 15 world0)
       = fst (searchAvailableSlots working_collaborators
                (new_GPConnectService (sample_env (Some ''demo''))) (sample_env (Some ''demo''))
                ''B67890'' ''2025-01-01'' ''2025-01-31'' 45 world0)"
proof -
  have a: "no_signing_mode demo_env" "no_signing_mode (sample_env (Some ''demo''))"
    by (simp_all add: env_defs)
  have c: "Date_now failing_collaborators (clock_reads world0)
             = Date_now working_collaborators (clock_reads world0)"
    by (simp add: sample_defs)
  have u: "\<forall>i<4. uuidv4 failing_collaborators (uuids_drawn world0 + i)
             = uuidv4 working_collaborators (uuids_drawn world0 + i)"
    by (simp add: sample_defs)
  from demo_slots_depend_on_clock_and_uuids [OF a c u] a show ?thesis by blast
qed

text \<open>
  The claim as stated fails for two consecutive searches with the same arguments: the
  second draws new UUIDs and reads a later clock value.
\<close>

theorem consecutive_demo_searches_differ:
  "no_signing_mode demo_env
   \<and> getPracticeByODS failing_collaborators demo_env ''A12345'' = Some example_medical_centre
   \<and> map slot_id (projr (fst (searchAvailableSlots failing_collaborators
        (new_GPConnectService demo_env) demo_env ''A12345'' ''2024-12-01'' ''2024-12-07'' 15
        world0)))
       = [''slot-uuid-0'', ''slot-uuid-1'', ''slot-uuid-2'', ''slot-uuid-3'']
   \<and> map slot_id (projr (fst (searchAvailableSlots failing_collaborators
        (new_GPConnectService demo_env) demo_env ''A12345'' ''2024-12-01'' ''2024-12-07'' 15
        (snd (searchAvailableSlots failing_collaborators
               (new_GPConnectService demo_env) demo_env ''A12345'' ''2024-12-01'' ''2024-12-07'' 15
               world0)))))
       = [''slot-uuid-4'', ''slot-uuid-5'', ''slot-uuid-6'', ''slot-uuid-7'']
   \<and> fst (searchAvailableSlots failing_collaborators
        (new_GPConnectService demo_env) demo_env ''A12345'' ''2024-12-01'' ''2024-12-07'' 15
        world0)
       \<noteq> fst (searchAvailableSlots failing_collaborators
        (new_GPConnectService demo_env) demo_env ''A12345'' ''2024-12-01'' ''2024-12-07'' 15
        (snd (searchAvailableSlots failing_collaborators
               (new_GPConnectService demo_env) demo_env ''A12345'' ''2024-12-01'' ''2024-12-07'' 15
               world0)))"
  by (simp add: env_defs sample_defs run_defs)

text \<open>
  Claim C7. When the database query raises in normal (non-demo) mode, \<open>getPracticeByODS\<close>
  returns a value and no error: the hardcoded record of Example Medical Centre when the
  requested code is \<open>A12345\<close>, and null for every other code.
\<close>

theorem lookup_exception_fallback:
  assumes "\<not> demo_mode env" and "gp_practices x = Inl err"
  shows "getPracticeByODS x env odsCode =
           (if odsCode = ''A12345'' then Some example_medical_centre else None)
       \<and> name example_medical_centre = ''Example Medical Centre''"
  using assms by (simp add: getPracticeByODS_def example_medical_centre_def)

theorem lookup_exception_fallback_witness:
  "\<not> demo_mode (sample_env (Some ''production''))
   \<and> gp_practices (failing_collaborators\<lparr>gp_practices := Inl (Error ''connection refused'')\<rparr>)
       = Inl (Error ''connection refused'')
   \<and> getPracticeByODS (failing_collaborators\<lparr>gp_practices := Inl (Error ''connection refused'')\<rparr>)
        (sample_env (Some ''production'')) ''A12345'' = Some example_medical_centre
   \<and> getPracticeByODS (failing_collaborators\<lparr>gp_practices := Inl (Error ''connection refused'')\<rparr>)
        (sample_env (Some ''production'')) ''B67890'' = None"
proof -
  have a: "\<not> demo_mode (sample_env (Some ''production''))"
    by (simp add: env_defs)
  have b: "gp_practices (failing_collaborators\<lparr>gp_practices := Inl (Error ''connection refused'')\<rparr>)
       = Inl (Error ''connection refused'')"
    by simp
  from lookup_exception_fallback [OF a b, of "''A12345''"]
    lookup_exception_fallback [OF a b, of "''B67890''"] a b
  show ?thesis by simp
qed

text \<open>
  Claim C8, as amended. With a signing key configured (and \<open>NODE_ENV\<close> not \<open>demo\<close>),
  \<open>generateJWT\<close> signs a payload whose expiry is the whole second of one clock reading
  plus 300 and whose issued-at is the whole second of the next clock reading. The expiry
  lies at most 300 seconds after the first reading and is later than it; it is exactly
  300 seconds after issued-at when both readings fall in the same second, and never more
  than 300 seconds after it when the clock does not run backwards.
\<close>

theorem signed_assertion_expiry:
  assumes "NODE_ENV env \<noteq> Some ''demo''" and "jwtPrivateKey svc \<noteq> []"
  shows "\<exists>p. generateJWT x svc env asid' endpoint w =
               (jwt_sign x p (jwtPrivateKey svc), w\<lparr>clock_reads := clock_reads w + 2\<rparr>)
           \<and> jwt_exp p = Date_now x (clock_reads w) div 1000 + 300
           \<and> jwt_iat p = Date_now x (Suc (clock_reads w)) div 1000
           \<and> Date_now x (clock_reads w) < jwt_exp p * 1000
           \<and> jwt_exp p * 1000 \<le> Date_now x (clock_reads w) + 300000
           \<and> (Date_now x (clock_reads w) div 1000 = Date_now x (Suc (clock_reads w)) div 1000
                \<longrightarrow> jwt_exp p = jwt_iat p + 300)
           \<and> (Date_now x (clock_reads w) \<le> Date_now x (Suc (clock_reads w))
                \<longrightarrow> jwt_exp p \<le> jwt_iat p + 300)"
proof -
  define t1 where "t1 = Date_now x (clock_reads w)"
  define t2 where "t2 = Date_now x (Suc (clock_reads w))"
  define p where "p = build_jwt_payload env asid' endpoint t1 t2"
  have g: "generateJWT x svc env asid' endpoint w =
             (jwt_sign x p (jwtPrivateKey svc), w\<lparr>clock_reads := clock_reads w + 2\<rparr>)"
    using assms by (simp add: generateJWT_def read_clock_def Let_def p_def t1_def t2_def)
  have e: "jwt_exp p = t1 div 1000 + 300" and i: "jwt_iat p = t2 div 1000"
    by (simp_all add: p_def build_jwt_payload_def)
  have near: "t1 < jwt_exp p * 1000 \<and> jwt_exp p * 1000 \<le> t1 + 300000"
    unfolding e by presburger
  have mono: "t1 \<le> t2 \<longrightarrow> jwt_exp p \<le> jwt_iat p + 300"
    unfolding e i by (simp add: zdiv_mono1)
  have same: "t1 div 1000 = t2 div 1000 \<longrightarrow> jwt_exp p = jwt_iat p + 300"
    unfolding e i by simp
  from g e i near mono same show ?thesis
    unfolding t1_def t2_def by blast
qed

theorem signed_assertion_expiry_witness:
  "NODE_ENV (sample_env (Some ''production'')) \<noteq> Some ''demo''
   \<and> jwtPrivateKey (new_GPConnectService (sample_env (Some ''production''))) \<noteq> []
   \<and> Date_now failing_collaborators 1 div 1000 = Date_now failing_collaborators 2 div 1000
   \<and> fst (generateJWT failing_collaborators (new_GPConnectService (sample_env (Some ''production'')))
            (sample_env (Some ''production'')) ''ABC123456789''
            ''https://gp.example.nhs.uk/gpconnect'' (world0\<lparr>clock_reads := 1\<rparr>))
       = Inr ''exp=1733011501;iat=1733011201''"
  using signed_assertion_expiry [of "sample_env (Some ''production'')"
      "new_GPConnectService (sample_env (Some ''production''))" failing_collaborators
      "''ABC123456789''" "''https://gp.example.nhs.uk/gpconnect''" "world0\<lparr>clock_reads := 1\<rparr>"]
  by (simp add: env_defs sample_defs run_defs)

text \<open>
  The claim as stated fails when a second boundary falls between the two clock readings:
  with readings at 999 ms and at the next full second, expiry is 299 seconds after
  issued-at.
\<close>

theorem signed_assertion_expiry_counterexample:
  "NODE_ENV (sample_env (Some ''production'')) \<noteq> Some ''demo''
   \<and> jwtPrivateKey (new_GPConnectService (sample_env (Some ''production''))) \<noteq> []
   \<and> Date_now failing_collaborators 0 = 1733011200999
   \<and> Date_now failing_collaborators 1 = 1733011201000
   \<and> jwt_exp (build_jwt_payload (sample_env (Some ''production'')) ''ABC123456789''
        ''https://gp.example.nhs.uk/gpconnect'' 1733011200999 1733011201000)
       = jwt_iat (build_jwt_payload (sample_env (Some ''production'')) ''ABC123456789''
        ''https://gp.example.nhs.uk/gpconnect'' 1733011200999 1733011201000) + 299
   \<and> generateJWT failing_collaborators (new_GPConnectService (sample_env (Some ''production'')))
        (sample_env (Some ''production'')) ''ABC123456789''
        ''https://gp.example.nhs.uk/gpconnect'' world0
       = (jwt_sign failing_collaborators
            (build_jwt_payload (sample_env (Some ''production'')) ''ABC123456789''
               ''https://gp.example.nhs.uk/gpconnect'' 1733011200999 1733011201000)
            ''key'',
          world0\<lparr>clock_reads := 2\<rparr>)
   \<and> fst (generateJWT failing_collaborators (new_GPConnectService (sample_env (Some ''production'')))
            (sample_env (Some ''production'')) ''ABC123456789''
            ''https://gp.example.nhs.uk/gpconnect'' world0)
       = Inr ''exp=1733011500;iat=1733011201''"
  by (simp add: env_defs sample_defs run_defs)

text \<open>
  Claim C10. Every slot of the list \<open>getMockSlots\<close> returns has status \<open>free\<close> and
  ends exactly 15 minutes after it starts. \<open>searchAvailableSlots\<close> returns that list
  in demo / no-signing-key mode and after any error, for every requested duration.
\<close>

theorem mock_slots_ignore_duration:
  "(\<forall>s \<in> set (fst (getMockSlots x w)).
       slot_status s = ''free'' \<and> elapsed_ms (slot_start s) (slot_end s) = Some (15 * 60 * 1000))
   \<and> (no_signing_mode env \<longrightarrow>
        searchAvailableSlots x svc env odsCode fromDate toDate d w =
          (Inr (fst (getMockSlots x w)), snd (getMockSlots x w)))
   \<and> (\<forall>err w1. searchAvailableSlots_try x svc env odsCode fromDate toDate d w = (Inl err, w1) \<longrightarrow>
        searchAvailableSlots x svc env odsCode fromDate toDate d w =
          (Inr (fst (getMockSlots x w1)), snd (getMockSlots x w1)))"
proof -
  have a: "\<forall>s \<in> set (fst (getMockSlots x w)).
       slot_status s = ''free'' \<and> elapsed_ms (slot_start s) (slot_end s) = Some (15 * 60 * 1000)"
    by (simp add: getMockSlots_eq Let_def elapsed_ms_def Date_parse_def)
  have b: "no_signing_mode env \<longrightarrow>
        searchAvailableSlots x svc env odsCode fromDate toDate d w =
          (Inr (fst (getMockSlots x w)), snd (getMockSlots x w))"
    using search_demo_mode by blast
  have c: "\<forall>err w1. searchAvailableSlots_try x svc env odsCode fromDate toDate d w = (Inl err, w1) \<longrightarrow>
        searchAvailableSlots x svc env odsCode fromDate toDate d w =
          (Inr (fst (getMockSlots x w1)), snd (getMockSlots x w1))"
    by (simp add: search_after_try)
  from a b c show ?thesis by blast
qed

theorem mock_slots_ignore_duration_witness:
  "no_signing_mode demo_env
   \<and> map (\<lambda>s. (slot_status s, elapsed_ms (slot_start s) (slot_end s)))
        (projr (fst (searchAvailableSlots failing_collaborators (new_GPConnectService demo_env)
                       demo_env ''A12345'' ''2024-12-01'' ''2024-12-07'' 45 world0)))
       = [(''free'', Some 900000), (''free'', Some 900000), (''free'', Some 900000),
          (''free'', Some 900000)]"
  using mock_slots_ignore_duration [of failing_collaborators world0 demo_env
      "new_GPConnectService demo_env" "''A12345''" "''2024-12-01''" "''2024-12-07''" 45]
  by (simp add: env_defs sample_defs run_defs time_defs)

end
